theory Spec2Isabelle
  imports Complex_Main
begin

section \<open>Georgetown travel form generator: the reimbursement arithmetic\<close>

text \<open>
  A shallow embedding of the arithmetic of \<^verbatim>\<open>travel_form_generate.py\<close>: the numeric
  field parser \<^verbatim>\<open>number_text_input\<close>, the totals computed by \<^verbatim>\<open>main\<close> when the form is
  submitted, and the totals recomputed by \<^verbatim>\<open>create_pdf\<close> when the document is rendered.

  Conventions of the embedding.
  \<^item> A Python \<^verbatim>\<open>int\<close> is an \<open>int\<close>. A finite Python \<^verbatim>\<open>float\<close> is a \<open>rat\<close>, and
    \<^verbatim>\<open>+\<close>, \<^verbatim>\<open>-\<close>, \<^verbatim>\<open>*\<close>, \<^verbatim>\<open>max\<close> and \<^verbatim>\<open>sum\<close> on floats are the exact rational operations:
    the rounding error of binary double arithmetic is not modelled. For the per diem this
    loses nothing on the five tiers of the form, where every intermediate value is a
    multiple of 1/4 below 100 and double arithmetic is exact. For the mileage, the
    literal \<^verbatim>\<open>0.70\<close> is read as 7/10.
  \<^item> A Python \<^verbatim>\<open>str\<close> is a \<open>string\<close>, one \<open>char\<close> for each code point below 256.
  \<^item> A raise is a value \<open>Inl e\<close> of \<open>error + 'a\<close>; a function whose source cannot raise
    returns its value directly.
\<close>

subsection \<open>Python primitives used by the source\<close>

datatype error = OverflowError | IndexError | KeyError

definition bind_err :: "error + 'a \<Rightarrow> ('a \<Rightarrow> error + 'b) \<Rightarrow> error + 'b" where
  "bind_err m f = (case m of Inl e \<Rightarrow> Inl e | Inr x \<Rightarrow> f x)"

text \<open>\<^verbatim>\<open>str.isspace\<close> on one code point below 256.\<close>

definition py_isspace :: "char \<Rightarrow> bool" where
  "py_isspace c =
     (let n = (of_char c :: nat)
      in (9 \<le> n \<and> n \<le> 13) \<or> (28 \<le> n \<and> n \<le> 32) \<or> n = 133 \<or> n = 160)"

text \<open>\<^verbatim>\<open>s.strip()\<close>: leading and trailing whitespace removed.\<close>

definition strip :: "string \<Rightarrow> string" where
  "strip s = rev (dropWhile py_isspace (rev (dropWhile py_isspace s)))"

text \<open>\<^verbatim>\<open>s.replace(c, '')\<close> for a one-character \<^verbatim>\<open>c\<close>.\<close>

definition remove_char :: "char \<Rightarrow> string \<Rightarrow> string" where
  "remove_char c s = filter (\<lambda>x. x \<noteq> c) s"

text \<open>
  \<^verbatim>\<open>round(x, ndigits)\<close> on a float: the nearest multiple of \<open>10\<^sup>-\<^sup>n\<close>, a tie going to the
  even one.
\<close>

definition round_half_even :: "rat \<Rightarrow> int" where
  "round_half_even x =
     (let f = \<lfloor>x\<rfloor>; d = x - of_int f
      in if d < 1 / 2 then f
         else if 1 / 2 < d then f + 1
         else if even f then f else f + 1)"

definition py_round :: "rat \<Rightarrow> nat \<Rightarrow> rat" where
  "py_round x ndigits = of_int (round_half_even (x * 10 ^ ndigits)) / 10 ^ ndigits"

text \<open>
  \<^verbatim>\<open>float(n)\<close> on an \<^verbatim>\<open>int\<close>: \<^verbatim>\<open>OverflowError\<close> when \<open>n\<close> rounds beyond the largest double,
  that is from \<open>2\<^sup>1\<^sup>0\<^sup>2\<^sup>4 - 2\<^sup>9\<^sup>7\<^sup>0\<close> on.
\<close>

definition float_max_int :: int where
  "float_max_int = 2 ^ 1024 - 2 ^ 970"

definition py_float :: "int \<Rightarrow> error + rat" where
  "py_float n = (if float_max_int \<le> \<bar>n\<bar> then Inl OverflowError else Inr (of_int n))"

text \<open>\<^verbatim>\<open>d[k]\<close> and \<^verbatim>\<open>d.get(k, default)\<close> on a dict.\<close>

definition dict_index :: "('k \<rightharpoonup> 'v) \<Rightarrow> 'k \<Rightarrow> error + 'v" where
  "dict_index d k = (case d k of None \<Rightarrow> Inl KeyError | Some v \<Rightarrow> Inr v)"

definition dict_get :: "('k \<rightharpoonup> 'v) \<Rightarrow> 'k \<Rightarrow> 'v \<Rightarrow> 'v" where
  "dict_get d k dflt = (case d k of None \<Rightarrow> dflt | Some v \<Rightarrow> v)"

subsection \<open>The meal deduction table\<close>

record deducts =
  breakfast :: rat
  lunch :: rat
  dinner :: rat
  incidental :: rat
  first_last :: rat

text \<open>The table is written out twice in the source: in \<^verbatim>\<open>create_pdf\<close> and in \<^verbatim>\<open>main\<close>.\<close>

definition create_pdf_meal_deductions :: "int \<rightharpoonup> deducts" where
  "create_pdf_meal_deductions = map_of
     [(68, \<lparr>breakfast = 16, lunch = 19, dinner = 28, incidental = 5, first_last = 51\<rparr>),
      (74, \<lparr>breakfast = 18, lunch = 20, dinner = 31, incidental = 5, first_last = 111 / 2\<rparr>),
      (80, \<lparr>breakfast = 20, lunch = 22, dinner = 33, incidental = 5, first_last = 60\<rparr>),
      (86, \<lparr>breakfast = 22, lunch = 23, dinner = 36, incidental = 5, first_last = 129 / 2\<rparr>),
      (92, \<lparr>breakfast = 23, lunch = 26, dinner = 38, incidental = 5, first_last = 69\<rparr>)]"

definition main_meal_deductions :: "int \<rightharpoonup> deducts" where
  "main_meal_deductions = map_of
     [(68, \<lparr>breakfast = 16, lunch = 19, dinner = 28, incidental = 5, first_last = 51\<rparr>),
      (74, \<lparr>breakfast = 18, lunch = 20, dinner = 31, incidental = 5, first_last = 111 / 2\<rparr>),
      (80, \<lparr>breakfast = 20, lunch = 22, dinner = 33, incidental = 5, first_last = 60\<rparr>),
      (86, \<lparr>breakfast = 22, lunch = 23, dinner = 36, incidental = 5, first_last = 129 / 2\<rparr>),
      (92, \<lparr>breakfast = 23, lunch = 26, dinner = 38, incidental = 5, first_last = 69\<rparr>)]"

subsection \<open>The per-diem inputs and the active day set\<close>

text \<open>
  The five per-day lists of the per-diem section. \<^verbatim>\<open>main\<close> fills \<^verbatim>\<open>per_diem_amounts\<close> with
  the value of one select box (an \<^verbatim>\<open>int\<close>), the dates with text fields and the three
  check lists with check boxes.
\<close>

record per_diem_input =
  per_diem_dates :: "string list"
  per_diem_amounts :: "int list"
  breakfast_checks :: "bool list"
  lunch_checks :: "bool list"
  dinner_checks :: "bool list"

text \<open>The test \<^verbatim>\<open>d and str(d).strip()\<close> on a date string.\<close>

definition has_date :: "string \<Rightarrow> bool" where
  "has_date d = (d \<noteq> [] \<and> strip d \<noteq> [])"

text \<open>\<^verbatim>\<open>[i for i, d in enumerate(per_diem_dates) if d and str(d).strip()]\<close>\<close>

definition days_with_dates :: "string list \<Rightarrow> nat list" where
  "days_with_dates dates = filter (\<lambda>i. has_date (dates ! i)) [0..<length dates]"

text \<open>\<^verbatim>\<open>days_with_dates[0] if days_with_dates else 0\<close> and the same with \<^verbatim>\<open>[-1]\<close>.\<close>

definition first_day_idx :: "string list \<Rightarrow> nat" where
  "first_day_idx dates = (case days_with_dates dates of [] \<Rightarrow> 0 | i # _ \<Rightarrow> i)"

definition last_day_idx :: "string list \<Rightarrow> nat" where
  "last_day_idx dates =
     (if days_with_dates dates = [] then 0 else last (days_with_dates dates))"

subsection \<open>The per-diem loop of \<^verbatim>\<open>main\<close>\<close>

text \<open>The local variables of one iteration on a day that has a date.\<close>

record day_result =
  base_per_diem :: int
  deduction_total :: rat
  pre75_total :: rat
  final_per_diem :: rat

definition main_per_diem_day :: "per_diem_input \<Rightarrow> nat \<Rightarrow> nat \<Rightarrow> nat \<Rightarrow> error + day_result" where
  "main_per_diem_day inp first_idx last_idx i =
     (let base = (if i < length (per_diem_amounts inp) \<and> per_diem_amounts inp ! i \<noteq> 0
                  then per_diem_amounts inp ! i else 80)
      in bind_err (dict_index main_meal_deductions 80) (\<lambda>dflt.
         let deducts = dict_get main_meal_deductions base dflt;
             d0 = 0;
             d1 = (if i < length (breakfast_checks inp) \<and> breakfast_checks inp ! i
                   then d0 + breakfast deducts else d0);
             d2 = (if i < length (lunch_checks inp) \<and> lunch_checks inp ! i
                   then d1 + lunch deducts else d1);
             d3 = (if i < length (dinner_checks inp) \<and> dinner_checks inp ! i
                   then d2 + dinner deducts else d2)
         in bind_err (py_float base) (\<lambda>fbase.
            let pre75 = max 0 (fbase - d3);
                final = (if i = first_idx \<or> i = last_idx
                         then py_round (pre75 * (3 / 4)) 2
                         else py_round pre75 2)
            in Inr \<lparr>base_per_diem = base, deduction_total = d3,
                    pre75_total = pre75, final_per_diem = final\<rparr>)))"

text \<open>
  \<^verbatim>\<open>for i in range(len(per_diem_dates))\<close>, over the indices still to visit, with the list
  \<^verbatim>\<open>adjusted_per_diem_daily\<close> built so far.
\<close>

fun main_per_diem_loop ::
  "per_diem_input \<Rightarrow> nat \<Rightarrow> nat \<Rightarrow> nat list \<Rightarrow> rat list \<Rightarrow> error + rat list" where
  "main_per_diem_loop inp first_idx last_idx [] adjusted = Inr adjusted"
| "main_per_diem_loop inp first_idx last_idx (i # rest) adjusted =
     (if i < length (per_diem_dates inp) \<and> has_date (per_diem_dates inp ! i)
      then bind_err (main_per_diem_day inp first_idx last_idx i) (\<lambda>r.
             main_per_diem_loop inp first_idx last_idx rest (adjusted @ [final_per_diem r]))
      else main_per_diem_loop inp first_idx last_idx rest (adjusted @ [0]))"

definition main_adjusted_per_diem_daily :: "per_diem_input \<Rightarrow> error + rat list" where
  "main_adjusted_per_diem_daily inp =
     main_per_diem_loop inp (first_day_idx (per_diem_dates inp))
       (last_day_idx (per_diem_dates inp)) [0..<length (per_diem_dates inp)] []"

subsection \<open>The per-diem loops of \<^verbatim>\<open>create_pdf\<close>\<close>

text \<open>
  \<^verbatim>\<open>create_pdf\<close> reads the five lists back from the form data and repeats the
  computation of \<^verbatim>\<open>main\<close> with its own copy of the table.
\<close>

definition create_pdf_per_diem_day ::
  "per_diem_input \<Rightarrow> nat \<Rightarrow> nat \<Rightarrow> nat \<Rightarrow> error + day_result" where
  "create_pdf_per_diem_day inp first_idx last_idx i =
     (let base = (if i < length (per_diem_amounts inp) \<and> per_diem_amounts inp ! i \<noteq> 0
                  then per_diem_amounts inp ! i else 80)
      in bind_err (dict_index create_pdf_meal_deductions 80) (\<lambda>dflt.
         let deducts = dict_get create_pdf_meal_deductions base dflt;
             d0 = 0;
             d1 = (if i < length (breakfast_checks inp) \<and> breakfast_checks inp ! i
                   then d0 + breakfast deducts else d0);
             d2 = (if i < length (lunch_checks inp) \<and> lunch_checks inp ! i
                   then d1 + lunch deducts else d1);
             d3 = (if i < length (dinner_checks inp) \<and> dinner_checks inp ! i
                   then d2 + dinner deducts else d2)
         in bind_err (py_float base) (\<lambda>fbase.
            let pre75 = max 0 (fbase - d3);
                final = (if i = first_idx \<or> i = last_idx
                         then py_round (pre75 * (3 / 4)) 2
                         else py_round pre75 2)
            in Inr \<lparr>base_per_diem = base, deduction_total = d3,
                    pre75_total = pre75, final_per_diem = final\<rparr>)))"

text \<open>The first loop appends every value to two lists, \<^verbatim>\<open>adjusted_per_diem\<close> and \<^verbatim>\<open>daily_totals\<close>.\<close>

fun create_pdf_per_diem_loop ::
  "per_diem_input \<Rightarrow> nat \<Rightarrow> nat \<Rightarrow> nat list \<Rightarrow> rat list \<times> rat list
     \<Rightarrow> error + rat list \<times> rat list" where
  "create_pdf_per_diem_loop inp first_idx last_idx [] acc = Inr acc"
| "create_pdf_per_diem_loop inp first_idx last_idx (i # rest) (adjusted, daily) =
     (if i < length (per_diem_dates inp) \<and> has_date (per_diem_dates inp ! i)
      then bind_err (create_pdf_per_diem_day inp first_idx last_idx i) (\<lambda>r.
             create_pdf_per_diem_loop inp first_idx last_idx rest
               (adjusted @ [final_per_diem r], daily @ [final_per_diem r]))
      else create_pdf_per_diem_loop inp first_idx last_idx rest
             (adjusted @ [0], daily @ [0]))"

definition create_pdf_adjusted_per_diem :: "per_diem_input \<Rightarrow> error + rat list \<times> rat list" where
  "create_pdf_adjusted_per_diem inp =
     create_pdf_per_diem_loop inp (first_day_idx (per_diem_dates inp))
       (last_day_idx (per_diem_dates inp)) [0..<length (per_diem_dates inp)] ([], [])"

text \<open>\<^verbatim>\<open>total_per_diem_calculated = sum(daily_totals)\<close>\<close>

definition create_pdf_total_per_diem_calculated :: "per_diem_input \<Rightarrow> error + rat" where
  "create_pdf_total_per_diem_calculated inp =
     bind_err (create_pdf_adjusted_per_diem inp) (\<lambda>(adjusted, daily). Inr (sum_list daily))"

text \<open>
  The second loop fills the rows "Total Reduction" and "Daily Meal Total". It reads
  \<^verbatim>\<open>per_diem_amounts[i]\<close> without the length test of the first loop, so the read is an
  indexing that can raise.
\<close>

definition list_index :: "'a list \<Rightarrow> nat \<Rightarrow> error + 'a" where
  "list_index xs i = (if i < length xs then Inr (xs ! i) else Inl IndexError)"

definition create_pdf_meal_total_day :: "per_diem_input \<Rightarrow> nat \<Rightarrow> error + rat \<times> rat" where
  "create_pdf_meal_total_day inp i =
     bind_err (list_index (per_diem_amounts inp) i) (\<lambda>amount.
     let base = (if amount \<noteq> 0 then amount else 80)
     in bind_err (dict_index create_pdf_meal_deductions 80) (\<lambda>dflt.
        let deducts = dict_get create_pdf_meal_deductions base dflt;
            d0 = 0;
            d1 = (if i < length (breakfast_checks inp) \<and> breakfast_checks inp ! i
                  then d0 + breakfast deducts else d0);
            d2 = (if i < length (lunch_checks inp) \<and> lunch_checks inp ! i
                  then d1 + lunch deducts else d1);
            d3 = (if i < length (dinner_checks inp) \<and> dinner_checks inp ! i
                  then d2 + dinner deducts else d2)
        in bind_err (py_float base) (\<lambda>fbase.
           Inr (py_round d3 2, py_round (max 0 (fbase - d3)) 2))))"

fun create_pdf_meal_total_loop ::
  "per_diem_input \<Rightarrow> nat list \<Rightarrow> rat list \<times> rat list \<Rightarrow> error + rat list \<times> rat list" where
  "create_pdf_meal_total_loop inp [] acc = Inr acc"
| "create_pdf_meal_total_loop inp (i # rest) (total_reductions, daily_meal_totals) =
     (if i < length (per_diem_dates inp) \<and> has_date (per_diem_dates inp ! i)
      then bind_err (create_pdf_meal_total_day inp i) (\<lambda>(red, tot).
             create_pdf_meal_total_loop inp rest
               (total_reductions @ [red], daily_meal_totals @ [tot]))
      else create_pdf_meal_total_loop inp rest
             (total_reductions @ [0], daily_meal_totals @ [0]))"

definition create_pdf_daily_meal_totals :: "per_diem_input \<Rightarrow> error + rat list \<times> rat list" where
  "create_pdf_daily_meal_totals inp =
     create_pdf_meal_total_loop inp [0..<length (per_diem_dates inp)] ([], [])"

subsection \<open>Expense totals\<close>

text \<open>
  The per-day amount lists. Every entry is a value returned by \<^verbatim>\<open>number_text_input\<close>; the
  totals are modelled on the finite ones.
\<close>

record expense_input =
  mileage_amounts :: "rat list"
  airfare :: "rat list"
  ground_transport :: "rat list"
  parking :: "rat list"
  lodging :: "rat list"
  baggage :: "rat list"
  misc :: "rat list"
  misc2 :: "rat list"

text \<open>\<^verbatim>\<open>round(sum([m * 0.70 for m in mileage_amounts if m]),0)\<close>\<close>

definition main_total_mileage :: "rat list \<Rightarrow> rat" where
  "main_total_mileage amounts =
     py_round (sum_list (map (\<lambda>m. m * (7 / 10)) (filter (\<lambda>m. m \<noteq> 0) amounts))) 0"

text \<open>
  The mileage table of the document: \<^verbatim>\<open>grand_mileage_rate_total\<close> adds the rounded rate of
  every day that has an amount and is rounded once more after the loop.
\<close>

fun create_pdf_mileage_loop :: "rat list \<Rightarrow> rat \<Rightarrow> rat" where
  "create_pdf_mileage_loop [] grand = grand"
| "create_pdf_mileage_loop (amount # rest) grand =
     (if amount \<noteq> 0
      then create_pdf_mileage_loop rest (grand + py_round (amount * (7 / 10)) 0)
      else create_pdf_mileage_loop rest grand)"

definition create_pdf_grand_mileage_rate_total :: "rat list \<Rightarrow> rat" where
  "create_pdf_grand_mileage_rate_total amounts = py_round (create_pdf_mileage_loop amounts 0) 0"

text \<open>The totals that \<^verbatim>\<open>main\<close> stores in the form data.\<close>

record totals =
  total_mileage :: rat
  total_airfare :: rat
  total_ground_transport :: rat
  total_parking :: rat
  total_lodging :: rat
  total_baggage :: rat
  total_misc :: rat
  total_per_diem :: rat
  total_amount_due :: rat

definition main_totals :: "expense_input \<Rightarrow> per_diem_input \<Rightarrow> error + totals" where
  "main_totals ex inp =
     (let t_mileage = main_total_mileage (mileage_amounts ex);
          t_airfare = sum_list (airfare ex);
          t_ground = sum_list (ground_transport ex);
          t_parking = sum_list (parking ex);
          t_lodging = sum_list (lodging ex);
          t_baggage = sum_list (baggage ex);
          t_misc = sum_list (misc ex) + sum_list (misc2 ex)
      in bind_err (main_adjusted_per_diem_daily inp) (\<lambda>adjusted_per_diem_daily.
         let t_per_diem = sum_list adjusted_per_diem_daily
         in Inr \<lparr>total_mileage = t_mileage, total_airfare = t_airfare,
                 total_ground_transport = t_ground, total_parking = t_parking,
                 total_lodging = t_lodging, total_baggage = t_baggage,
                 total_misc = t_misc, total_per_diem = t_per_diem,
                 total_amount_due = t_mileage + t_airfare + t_ground + t_parking
                   + t_lodging + t_baggage + t_misc + t_per_diem\<rparr>))"



text \<open>The last column of an expense row of the document: \<^verbatim>\<open>sum(x for x in airfare if x)\<close>.\<close>

definition create_pdf_grand_sum :: "rat list \<Rightarrow> rat" where
  "create_pdf_grand_sum xs = sum_list (filter (\<lambda>x. x \<noteq> 0) xs)"

subsection \<open>The numeric text field\<close>

text \<open>
  The value of \<^verbatim>\<open>float(cleaned_text)\<close> can be any double, so here a float is finite,
  infinite or not a number, with the comparison of IEEE 754.
\<close>

datatype pyfloat = Finite rat | PosInf | NegInf | NaN

fun fl_less :: "pyfloat \<Rightarrow> pyfloat \<Rightarrow> bool" where
  "fl_less NaN _ = False"
| "fl_less _ NaN = False"
| "fl_less (Finite a) (Finite b) = (a < b)"
| "fl_less _ NegInf = False"
| "fl_less PosInf _ = False"
| "fl_less NegInf _ = True"
| "fl_less _ PosInf = True"

fun fl_le :: "pyfloat \<Rightarrow> pyfloat \<Rightarrow> bool" where
  "fl_le NaN _ = False"
| "fl_le _ NaN = False"
| "fl_le (Finite a) (Finite b) = (a \<le> b)"
| "fl_le NegInf _ = True"
| "fl_le _ PosInf = True"
| "fl_le _ NegInf = False"
| "fl_le PosInf _ = False"

text \<open>
  \<^verbatim>\<open>number_text_input\<close>, as a function of the text of the field and of \<^verbatim>\<open>min_value\<close>.
  The built-in \<^verbatim>\<open>float\<close> on a string is the parameter \<open>float_of_str\<close>, with \<open>None\<close> for
  \<^verbatim>\<open>ValueError\<close>. Both paths through the \<^verbatim>\<open>except\<close> branch return \<^verbatim>\<open>0.0\<close>; the error flag
  that the function leaves in the session state is not part of the returned value.
\<close>

definition number_text_input ::
  "(string \<Rightarrow> pyfloat option) \<Rightarrow> string \<Rightarrow> pyfloat \<Rightarrow> pyfloat" where
  "number_text_input float_of_str text_val min_value =
     (if text_val = [] \<or> strip text_val = [] then Finite 0
      else
        let cleaned_text =
              remove_char CHR '' '' (remove_char CHR '','' (remove_char CHR ''$'' (strip text_val)))
        in case float_of_str cleaned_text of
             Some num_val \<Rightarrow> (if fl_less num_val min_value then min_value else num_val)
           | None \<Rightarrow> Finite 0)"

text \<open>
  A parser for the examples: \<^verbatim>\<open>float\<close> on the plain decimal numerals, an optional sign, digits
  and at most one point with a digit on one side of it. On these strings it returns the
  number \<^verbatim>\<open>float\<close> reads, before rounding to a double; every other string is rejected here,
  which is not what \<^verbatim>\<open>float\<close> does on exponents, underscores, \<^verbatim>\<open>inf\<close> and \<^verbatim>\<open>nan\<close>. The theorems
  about \<^verbatim>\<open>number_text_input\<close> hold for every parser and do not depend on this one.
\<close>

fun digits_val :: "string \<Rightarrow> nat \<Rightarrow> nat option" where
  "digits_val [] acc = Some acc"
| "digits_val (c # cs) acc =
     (let n = (of_char c :: nat)
      in if 48 \<le> n \<and> n \<le> 57 then digits_val cs (10 * acc + (n - 48)) else None)"

definition float_of_decimal :: "string \<Rightarrow> pyfloat option" where
  "float_of_decimal s =
     (let (neg, body) = (case s of
              c # r \<Rightarrow> if c = CHR ''-'' then (True, r)
                       else if c = CHR ''+'' then (False, r) else (False, s)
            | [] \<Rightarrow> (False, s));
          ip = takeWhile (\<lambda>c. c \<noteq> CHR ''.'') body;
          fp = drop 1 (dropWhile (\<lambda>c. c \<noteq> CHR ''.'') body)
      in if ip = [] \<and> fp = [] then None
         else case (digits_val ip 0, digits_val fp 0) of
                (Some a, Some b) \<Rightarrow>
                  Some (Finite ((if neg then - 1 else 1)
                                * (of_nat a + of_nat b / 10 ^ length fp)))
              | _ \<Rightarrow> None)"

section \<open>Properties\<close>

subsection \<open>Rounding\<close>

lemma round_half_even_of_int [simp]: "round_half_even (of_int n) = n"
  by (simp add: round_half_even_def)




lemma py_round_of_int [simp]: "py_round (of_int n) k = of_int n"
proof -
  have "(of_int n :: rat) * 10 ^ k = of_int (n * 10 ^ k)" by simp
  then have "round_half_even (of_int n * 10 ^ k) = n * 10 ^ k"
    by (simp only: round_half_even_of_int)
  then show ?thesis by (simp add: py_round_def)
qed

lemma py_round_zero [simp]: "py_round 0 k = 0"
  using py_round_of_int [of 0 k] by simp



subsection \<open>Mileage\<close>



lemma create_pdf_mileage_loop_eq:
  "create_pdf_mileage_loop amounts grand =
     grand + sum_list (map (\<lambda>m. py_round (m * (7 / 10)) 0) amounts)"
  by (induction amounts arbitrary: grand) auto

text \<open>
  C8. The claim: for every list of per-day miles, the mileage total of the document's
  mileage table (each day's \<open>miles * 0.70\<close> rounded to whole dollars, then added) equals
  the total of the submission path (the sum of \<open>miles * 0.70\<close>, rounded once). The two
  paths differ: with one mile on each of two days the table shows 2 and the submission
  total, printed in the sub-totals of the same document, is 1.
\<close>

theorem mileage_paths_disagree:
  "create_pdf_grand_mileage_rate_total [1, 1] = 2 \<and> main_total_mileage [1, 1] = 1"
  by code_simp

subsection \<open>The per-diem loops\<close>

lemma meal_deductions_same: "create_pdf_meal_deductions = main_meal_deductions"
  by (simp add: create_pdf_meal_deductions_def main_meal_deductions_def)

lemma dict_index_main_80:
  "dict_index main_meal_deductions 80 =
     Inr \<lparr>breakfast = 20, lunch = 22, dinner = 33, incidental = 5, first_last = 60\<rparr>"
  by (simp add: dict_index_def main_meal_deductions_def)

lemma create_pdf_per_diem_day_eq:
  "create_pdf_per_diem_day inp f l i = main_per_diem_day inp f l i"
  by (simp add: create_pdf_per_diem_day_def main_per_diem_day_def meal_deductions_same)

lemma main_per_diem_day_Inr:
  fixes inp :: per_diem_input and i :: nat
  defines "base \<equiv> (if i < length (per_diem_amounts inp) \<and> per_diem_amounts inp ! i \<noteq> 0
                    then per_diem_amounts inp ! i else 80)"
  defines "ded \<equiv> dict_get main_meal_deductions base
                    \<lparr>breakfast = 20, lunch = 22, dinner = 33, incidental = 5, first_last = 60\<rparr>"
  defines "D \<equiv> (if i < length (breakfast_checks inp) \<and> breakfast_checks inp ! i
                  then breakfast ded else 0)
              + (if i < length (lunch_checks inp) \<and> lunch_checks inp ! i then lunch ded else 0)
              + (if i < length (dinner_checks inp) \<and> dinner_checks inp ! i then dinner ded else 0)"
  assumes "\<bar>base\<bar> < float_max_int"
  shows "main_per_diem_day inp f l i =
           Inr \<lparr>base_per_diem = base, deduction_total = D,
                pre75_total = max 0 (of_int base - D),
                final_per_diem = (if i = f \<or> i = l
                                  then py_round (max 0 (of_int base - D) * (3 / 4)) 2
                                  else py_round (max 0 (of_int base - D)) 2)\<rparr>"
proof -
  have pf: "py_float base = Inr (of_int base)"
    using assms(4) by (simp add: py_float_def)
  have add: "\<And>c x y. (if c then x + y else x) = x + (if c then y else (0::rat))"
    by simp
  show ?thesis
  proof (cases "i = f \<or> i = l")
    case True
    show ?thesis
      unfolding main_per_diem_day_def dict_index_main_80 base_def [symmetric] D_def ded_def
      using True pf
      by (simp add: bind_err_def Let_def add split del: if_split)
  next
    case False
    show ?thesis
      unfolding main_per_diem_day_def dict_index_main_80 base_def [symmetric] D_def ded_def
      using False pf
      by (simp add: bind_err_def Let_def add split del: if_split)
  qed
qed



lemma main_per_diem_loop_acc:
  "main_per_diem_loop inp f l idxs acc =
     bind_err (main_per_diem_loop inp f l idxs []) (\<lambda>xs. Inr (acc @ xs))"
proof (induction idxs arbitrary: acc)
  case Nil
  show ?case by (simp add: bind_err_def)
next
  case (Cons i rest)
  have step: "main_per_diem_loop inp f l rest (acc @ [x]) =
      bind_err (main_per_diem_loop inp f l rest [x]) (\<lambda>xs. Inr (acc @ xs))" for x
  proof -
    have a: "main_per_diem_loop inp f l rest (acc @ [x]) =
        bind_err (main_per_diem_loop inp f l rest []) (\<lambda>xs. Inr ((acc @ [x]) @ xs))"
      by (rule Cons.IH)
    have b: "main_per_diem_loop inp f l rest [x] =
        bind_err (main_per_diem_loop inp f l rest []) (\<lambda>xs. Inr ([x] @ xs))"
      by (rule Cons.IH)
    show ?thesis
      unfolding a b by (cases "main_per_diem_loop inp f l rest []") (simp_all add: bind_err_def)
  qed
  show ?case
  proof (cases "i < length (per_diem_dates inp) \<and> has_date (per_diem_dates inp ! i)")
    case True
    show ?thesis
    proof (cases "main_per_diem_day inp f l i")
      case (Inl e)
      then show ?thesis using True by (simp add: bind_err_def)
    next
      case (Inr r)
      then show ?thesis using True step [of "final_per_diem r"] by (simp add: bind_err_def)
    qed
  next
    case False
    then show ?thesis using step [of 0] by auto
  qed
qed

lemma create_pdf_per_diem_loop_eq:
  "create_pdf_per_diem_loop inp f l idxs (a, d) =
     bind_err (main_per_diem_loop inp f l idxs []) (\<lambda>xs. Inr (a @ xs, d @ xs))"
proof (induction idxs arbitrary: a d)
  case Nil
  show ?case by (simp add: bind_err_def)
next
  case (Cons i rest)
  have step: "bind_err (main_per_diem_loop inp f l rest []) (\<lambda>xs. Inr ((a @ [x]) @ xs, (d @ [x]) @ xs))
     = bind_err (main_per_diem_loop inp f l rest [x]) (\<lambda>xs. Inr (a @ xs, d @ xs))" for x
  proof -
    have b: "main_per_diem_loop inp f l rest [x] =
        bind_err (main_per_diem_loop inp f l rest []) (\<lambda>xs. Inr ([x] @ xs))"
      by (rule main_per_diem_loop_acc)
    show ?thesis
      unfolding b by (cases "main_per_diem_loop inp f l rest []") (simp_all add: bind_err_def)
  qed
  show ?case
  proof (cases "i < length (per_diem_dates inp) \<and> has_date (per_diem_dates inp ! i)")
    case True
    show ?thesis
    proof (cases "main_per_diem_day inp f l i")
      case (Inl e)
      then show ?thesis using True by (simp add: bind_err_def create_pdf_per_diem_day_eq)
    next
      case (Inr r)
      then show ?thesis
        using True step [of "final_per_diem r"] Cons.IH [of "a @ [final_per_diem r]" "d @ [final_per_diem r]"]
        by (simp add: bind_err_def create_pdf_per_diem_day_eq)
    qed
  next
    case False
    then show ?thesis using step [of 0] Cons.IH [of "a @ [0]" "d @ [0]"] by auto
  qed
qed








lemma create_pdf_adjusted_eq:
  "create_pdf_adjusted_per_diem inp =
     bind_err (main_adjusted_per_diem_daily inp) (\<lambda>adj. Inr (adj, adj))"
  unfolding create_pdf_adjusted_per_diem_def main_adjusted_per_diem_daily_def
  by (simp add: create_pdf_per_diem_loop_eq)

text \<open>
  C9. For the same per-day dates, tiers and meal flags, the adjusted per-diem sequence and
  the per-diem total computed inside \<^verbatim>\<open>create_pdf\<close> are those computed by the submission path
  of \<^verbatim>\<open>main\<close>: both of \<^verbatim>\<open>create_pdf\<close>'s lists equal \<^verbatim>\<open>adjusted_per_diem_daily\<close>, its
  \<^verbatim>\<open>total_per_diem_calculated\<close> equals their sum, which is the \<^verbatim>\<open>total_per_diem\<close> of \<^verbatim>\<open>main\<close>,
  and where one path raises the other raises the same error.
\<close>

theorem create_pdf_per_diem_equals_main:
  "create_pdf_adjusted_per_diem inp =
     bind_err (main_adjusted_per_diem_daily inp) (\<lambda>adj. Inr (adj, adj))
   \<and> create_pdf_total_per_diem_calculated inp =
     bind_err (main_adjusted_per_diem_daily inp) (\<lambda>adj. Inr (sum_list adj))
   \<and> bind_err (main_totals ex inp) (\<lambda>t. Inr (total_per_diem t)) =
     create_pdf_total_per_diem_calculated inp"
proof (cases "main_adjusted_per_diem_daily inp")
  case (Inl e)
  then show ?thesis
    by (simp add: create_pdf_adjusted_eq create_pdf_total_per_diem_calculated_def
        main_totals_def bind_err_def Let_def)
next
  case (Inr adj)
  then show ?thesis
    by (simp add: create_pdf_adjusted_eq create_pdf_total_per_diem_calculated_def
        main_totals_def bind_err_def Let_def)
qed






text \<open>
  C6. For every valid tier \<open>t\<close> in 68, 74, 80, 86, 92 and every combination of the meal
  flags of a day, the deduction of the day is the sum of the breakfast, lunch and dinner
  amounts of the tier's table entry for exactly the meals flagged (a missing or false flag
  adds 0). No incidental amount enters: the pre-adjustment total is
  \<open>max 0 (t - deduction)\<close>. The deduction is the same whatever the first and last day
  indices are, in \<^verbatim>\<open>main\<close> and in \<^verbatim>\<open>create_pdf\<close>.
\<close>

theorem deduction_of_valid_tier:
  assumes "i < length (per_diem_amounts inp)" and "per_diem_amounts inp ! i = t"
    and "t \<in> {68, 74, 80, 86, 92}"
  shows "\<exists>ded r. main_meal_deductions t = Some ded \<and> create_pdf_meal_deductions t = Some ded
     \<and> main_per_diem_day inp f l i = Inr r \<and> create_pdf_per_diem_day inp f l i = Inr r
     \<and> deduction_total r =
         (if i < length (breakfast_checks inp) \<and> breakfast_checks inp ! i
          then breakfast ded else 0)
       + (if i < length (lunch_checks inp) \<and> lunch_checks inp ! i then lunch ded else 0)
       + (if i < length (dinner_checks inp) \<and> dinner_checks inp ! i then dinner ded else 0)
     \<and> pre75_total r = max 0 (of_int t - deduction_total r)
     \<and> (\<forall>f' l'. \<exists>r'. main_per_diem_day inp f' l' i = Inr r'
            \<and> deduction_total r' = deduction_total r)"
proof -
  obtain ded where ded: "main_meal_deductions t = Some ded"
    using assms(3) by (auto simp: main_meal_deductions_def)
  have t0: "t \<noteq> 0" using assms(3) by auto
  have base: "(if i < length (per_diem_amounts inp) \<and> per_diem_amounts inp ! i \<noteq> 0
               then per_diem_amounts inp ! i else 80) = t"
    using assms(1,2) t0 by simp
  have range: "\<bar>t\<bar> < float_max_int"
    using assms(3) by (auto simp: float_max_int_def)
  have get: "dict_get main_meal_deductions t dflt = ded" for dflt
    by (simp add: dict_get_def ded)
  note d = main_per_diem_day_Inr [where i = i and inp = inp, unfolded base get, OF range]
  show ?thesis
    by (simp add: ded meal_deductions_same create_pdf_per_diem_day_eq d)
qed





subsection \<open>Instances of the per-diem theorems\<close>








text \<open>
  The example of the specification: tier 80 with breakfast and lunch provided on an
  interior day has deduction 42 and pre-adjustment total 38.
\<close>

theorem deduction_of_valid_tier_witness:
  "(1::nat) < length (per_diem_amounts
       \<lparr>per_diem_dates = [''01/01/25'', ''01/02/25'', ''01/03/25''],
        per_diem_amounts = [80, 80, 80], breakfast_checks = [False, True, False],
        lunch_checks = [False, True, False], dinner_checks = [False, False, False]\<rparr>)
   \<and> per_diem_amounts
       \<lparr>per_diem_dates = [''01/01/25'', ''01/02/25'', ''01/03/25''],
        per_diem_amounts = [80, 80, 80], breakfast_checks = [False, True, False],
        lunch_checks = [False, True, False], dinner_checks = [False, False, False]\<rparr> ! 1 = 80
   \<and> (80::int) \<in> {68, 74, 80, 86, 92}
   \<and> (\<exists>r. main_per_diem_day
       \<lparr>per_diem_dates = [''01/01/25'', ''01/02/25'', ''01/03/25''],
        per_diem_amounts = [80, 80, 80], breakfast_checks = [False, True, False],
        lunch_checks = [False, True, False], dinner_checks = [False, False, False]\<rparr>
       0 2 1 = Inr r \<and> deduction_total r = 42 \<and> pre75_total r = 38)"
  (is "_ < length (per_diem_amounts ?inp) \<and> _ \<and> _ \<and> _")
proof -
  have h1: "(1::nat) < length (per_diem_amounts ?inp)" by simp
  have h2: "per_diem_amounts ?inp ! 1 = 80" by simp
  have h3: "(80::int) \<in> {68, 74, 80, 86, 92}" by simp
  have tbl: "main_meal_deductions 80 =
      Some \<lparr>breakfast = 20, lunch = 22, dinner = 33, incidental = 5, first_last = 60\<rparr>"
    by (simp add: main_meal_deductions_def)
  from deduction_of_valid_tier [OF h1 h2 h3, of 0 2] obtain ded r
    where ded: "main_meal_deductions 80 = Some ded"
      and r: "main_per_diem_day ?inp 0 2 1 = Inr r"
      and dt: "deduction_total r =
         (if 1 < length (breakfast_checks ?inp) \<and> breakfast_checks ?inp ! 1
          then breakfast ded else 0)
       + (if 1 < length (lunch_checks ?inp) \<and> lunch_checks ?inp ! 1 then lunch ded else 0)
       + (if 1 < length (dinner_checks ?inp) \<and> dinner_checks ?inp ! 1 then dinner ded else 0)"
      and pre: "pre75_total r = max 0 (of_int 80 - deduction_total r)"
    by blast
  from ded tbl have ded_eq: "ded = \<lparr>breakfast = 20, lunch = 22, dinner = 33, incidental = 5, first_last = 60\<rparr>"
    by simp
  have "deduction_total r = 42" using dt by (simp add: ded_eq)
  moreover from this pre have "pre75_total r = 38" by simp
  ultimately show ?thesis using r h1 h2 h3 by blast
qed

subsection \<open>The numeric text field\<close>

lemma fl_less_irrefl: "\<not> fl_less x x"
  by (cases x) simp_all

lemma strip_Nil [simp]: "strip [] = []"
  by (simp add: strip_def)

text \<open>
  C10, as amended. For every text and every parser standing for \<^verbatim>\<open>float\<close>: a text that is
  empty or blank yields 0.0, and so does a text that does not parse, whatever
  \<^verbatim>\<open>min_value\<close> is; a text that parses to a value below \<^verbatim>\<open>min_value\<close> yields \<^verbatim>\<open>min_value\<close>;
  any other text yields the parsed value, read after stripping the text and removing
  \<^verbatim>\<open>$\<close>, commas and spaces. Hence, when \<^verbatim>\<open>min_value\<close> is not above 0 (the default is 0.0),
  the result is never below \<^verbatim>\<open>min_value\<close>, and it is at least \<^verbatim>\<open>min_value\<close> unless it is NaN.
\<close>

theorem number_text_input_cases:
  fixes float_of_str :: "string \<Rightarrow> pyfloat option" and text_val :: string and min_value :: pyfloat
  defines "cleaned \<equiv> remove_char CHR '' '' (remove_char CHR '','' (remove_char CHR ''$'' (strip text_val)))"
  defines "res \<equiv> number_text_input float_of_str text_val min_value"
  shows "(text_val = [] \<or> strip text_val = [] \<longrightarrow> res = Finite 0)
     \<and> (strip text_val \<noteq> [] \<and> float_of_str cleaned = None \<longrightarrow> res = Finite 0)
     \<and> (strip text_val \<noteq> [] \<and> float_of_str cleaned = Some v \<and> fl_less v min_value
          \<longrightarrow> res = min_value)
     \<and> (strip text_val \<noteq> [] \<and> float_of_str cleaned = Some v \<and> \<not> fl_less v min_value
          \<longrightarrow> res = v)
     \<and> (\<not> fl_less (Finite 0) min_value \<longrightarrow> \<not> fl_less res min_value)
     \<and> (min_value = Finite m \<and> m \<le> 0 \<and> res \<noteq> NaN \<longrightarrow> fl_le min_value res)"
proof -
  have blank: "res = Finite 0" if "text_val = [] \<or> strip text_val = []"
    using that by (auto simp: res_def number_text_input_def)
  have ne: "text_val \<noteq> []" if "strip text_val \<noteq> []"
    using that by auto
  have none: "res = Finite 0" if "strip text_val \<noteq> []" "float_of_str cleaned = None"
    using that ne unfolding res_def number_text_input_def cleaned_def by (simp add: Let_def)
  have some: "res = (if fl_less v' min_value then min_value else v')"
    if "strip text_val \<noteq> []" "float_of_str cleaned = Some v'" for v'
    using that ne unfolding res_def number_text_input_def cleaned_def by (simp add: Let_def)
  have cases: "res = Finite 0 \<or> res = min_value
      \<or> (\<exists>v'. res = v' \<and> \<not> fl_less v' min_value)"
  proof (cases "text_val = [] \<or> strip text_val = []")
    case True
    then show ?thesis using blank by simp
  next
    case False
    then have s: "strip text_val \<noteq> []" by simp
    show ?thesis
    proof (cases "float_of_str cleaned")
      case None
      then show ?thesis using none s by simp
    next
      case (Some v')
      then show ?thesis using some [OF s Some] by auto
    qed
  qed
  have below: "\<not> fl_less res min_value" if "\<not> fl_less (Finite 0) min_value"
    using cases that fl_less_irrefl by auto
  have atleast: "fl_le min_value res" if "min_value = Finite m" "m \<le> 0" "res \<noteq> NaN"
  proof -
    from cases consider "res = Finite 0" | "res = min_value" | "\<not> fl_less res min_value"
      by auto
    then show ?thesis
    proof cases
      case 1 then show ?thesis using that by simp
    next
      case 2 then show ?thesis using that by simp
    next
      case 3 then show ?thesis using that by (cases res) simp_all
    qed
  qed
  show ?thesis
    using blank none some [of v] below atleast by simp
qed

text \<open>The text \<^verbatim>\<open>" $-5 "\<close> with the default \<^verbatim>\<open>min_value\<close>: read as -5 and clamped to 0.\<close>

theorem number_text_input_cases_witness:
  "strip '' $-5 '' \<noteq> []
   \<and> float_of_decimal
        (remove_char CHR '' '' (remove_char CHR '','' (remove_char CHR ''$'' (strip '' $-5 ''))))
      = Some (Finite (- 5))
   \<and> fl_less (Finite (- 5)) (Finite 0)
   \<and> number_text_input float_of_decimal '' $-5 '' (Finite 0) = Finite 0
   \<and> fl_le (Finite 0) (number_text_input float_of_decimal '' $-5 '' (Finite 0))"
proof -
  have h1: "strip '' $-5 '' \<noteq> []" by code_simp
  have h2: "float_of_decimal
        (remove_char CHR '' '' (remove_char CHR '','' (remove_char CHR ''$'' (strip '' $-5 ''))))
      = Some (Finite (- 5))" by code_simp
  have h3: "fl_less (Finite (- 5)) (Finite 0)" by simp
  note t = number_text_input_cases [where text_val = "'' $-5 ''" and float_of_str = float_of_decimal
      and v = "Finite (- 5)" and min_value = "Finite 0" and m = 0]
  from t h1 h2 h3 have r: "number_text_input float_of_decimal '' $-5 '' (Finite 0) = Finite 0"
    by blast
  from t r have "fl_le (Finite 0) (number_text_input float_of_decimal '' $-5 '' (Finite 0))"
    by simp
  with h1 h2 h3 r show ?thesis by blast
qed

text \<open>
  With \<^verbatim>\<open>min_value = 1\<close> the empty text still yields 0.0, which is below \<^verbatim>\<open>min_value\<close>: the
  early return does not look at \<^verbatim>\<open>min_value\<close>, and the parser is not consulted.
\<close>

theorem min_value_counterexample:
  "number_text_input float_of_decimal '''' (Finite 1) = Finite 0
   \<and> \<not> fl_le (Finite 1) (number_text_input float_of_decimal '''' (Finite 1))"
  by (simp add: number_text_input_def)

text \<open>With the default \<^verbatim>\<open>min_value\<close>, as in every call of \<^verbatim>\<open>main\<close>, a finite amount is not negative.\<close>

lemma number_text_input_default_nonneg:
  assumes "number_text_input float_of_str text_val (Finite 0) = Finite r"
  shows "0 \<le> r"
proof (cases "text_val = [] \<or> strip text_val = []")
  case True
  then show ?thesis using assms by (auto simp: number_text_input_def)
next
  case False
  let ?cleaned = "remove_char CHR '' '' (remove_char CHR '','' (remove_char CHR ''$'' (strip text_val)))"
  show ?thesis
  proof (cases "float_of_str ?cleaned")
    case None
    then show ?thesis using assms False by (simp add: number_text_input_def Let_def)
  next
    case (Some v)
    then have "(if fl_less v (Finite 0) then Finite 0 else v) = Finite r"
      using assms False by (simp add: number_text_input_def Let_def)
    then show ?thesis by (cases v) (auto split: if_splits)
  qed
qed

subsection \<open>Totals\<close>





text \<open>The totals in the last column of the expense rows of the document are plain sums too.\<close>

lemma create_pdf_grand_sum_eq: "create_pdf_grand_sum xs = sum_list xs"
  unfolding create_pdf_grand_sum_def by (induction xs) auto




text \<open>
  The second per-diem loop of \<^verbatim>\<open>create_pdf\<close>, which fills the rows "Total Reduction" and
  "Daily Meal Total", is not covered by the totality above: on a dated day with no tier
  entry its unguarded \<^verbatim>\<open>per_diem_amounts[i]\<close> raises \<^verbatim>\<open>IndexError\<close>, where the first loop falls
  back to tier 80.
\<close>

lemma create_pdf_meal_totals_missing_tier:
  "create_pdf_daily_meal_totals
     \<lparr>per_diem_dates = [''01/01/25''], per_diem_amounts = [],
      breakfast_checks = [], lunch_checks = [], dinner_checks = []\<rparr> = Inl IndexError
   \<and> create_pdf_adjusted_per_diem
     \<lparr>per_diem_dates = [''01/01/25''], per_diem_amounts = [],
      breakfast_checks = [], lunch_checks = [], dinner_checks = []\<rparr> = Inr ([60], [60])"
  by code_simp

end
